theory Spec2Isabelle
  imports Complex_Main
begin

section \<open>AntibioDeal: the two dilution calculators\<close>

text \<open>
  The repository holds two Streamlit scripts. \<^verbatim>\<open>dilutioner.py\<close> (Policy A) reads a
  maximum concentration in mg/mL and looks for a number of daily infusions that fits a
  50 mL syringe pump; \<^verbatim>\<open>main.py\<close> (Policy B) reads a reference ratio
  ("1 a 2 g dans 100 ml", the "a" with a grave accent) and scales the dilution volume
  by it.

  Conventions of the embedding.
  \<^item> A Python \<^verbatim>\<open>float\<close> is a \<^typ>\<open>rat\<close>: the arithmetic is exact, the rounding of
    binary64 is not modelled. Division by zero raises, as in Python.
  \<^item> A Python \<^verbatim>\<open>str\<close> is a \<^typ>\<open>string\<close>; a \<^typ>\<open>char\<close> stands for the code point of
    the same number (Latin-1), so the accented letter of the patterns (a with a grave
    accent) is \<^term>\<open>CHR 0xE0\<close>.
  \<^item> An exception is a value: every computation that can raise returns
    \<open>py_exception + 'a\<close>, and the \<^verbatim>\<open>try\<close>/\<^verbatim>\<open>except\<close> blocks of the scripts decide which
    exceptions become a reported failure and which leave the script unhandled.
\<close>

subsection \<open>Python primitives\<close>

datatype py_exception = IndexError | ValueError | ZeroDivisionError | TypeError

text \<open>\<^verbatim>\<open>a / b\<close> on numbers.\<close>

definition truediv :: "rat \<Rightarrow> rat \<Rightarrow> py_exception + rat" where
  "truediv a b = (if b = 0 then Inl ZeroDivisionError else Inr (a / b))"

text \<open>\<^verbatim>\<open>int(x)\<close> truncates towards zero.\<close>

definition py_int :: "rat \<Rightarrow> int" where
  "py_int x = (if 0 \<le> x then \<lfloor>x\<rfloor> else \<lceil>x\<rceil>)"

text \<open>\<^verbatim>\<open>math.ceil(x)\<close>.\<close>

definition math_ceil :: "rat \<Rightarrow> int" where
  "math_ceil x = \<lceil>x\<rceil>"

text \<open>\<^verbatim>\<open>round(x)\<close> of Python 3 rounds a tie to the even neighbour.\<close>

definition py_round :: "rat \<Rightarrow> int" where
  "py_round x =
     (let f = \<lfloor>x\<rfloor>; d = x - of_int f
      in if d < 1 / 2 then f
         else if 1 / 2 < d then f + 1
         else if even f then f else f + 1)"

subsection \<open>Strings\<close>

text \<open>\<^verbatim>\<open>\d\<close> and \<^verbatim>\<open>\s\<close> of \<^verbatim>\<open>re\<close> on code points below 256; \<^verbatim>\<open>str.strip\<close> removes the
  same white space.\<close>

definition is_digit :: "char \<Rightarrow> bool" where
  "is_digit c = (c \<in> set ''0123456789'')"

definition is_space :: "char \<Rightarrow> bool" where
  "is_space c =
     (c \<in> set [CHR 0x09, CHR 0x0A, CHR 0x0B, CHR 0x0C, CHR 0x0D, CHR 0x1C, CHR 0x1D,
                CHR 0x1E, CHR 0x1F, CHR 0x20, CHR 0x85, CHR 0xA0])"

definition skip_space :: "string \<Rightarrow> string" where
  "skip_space s = dropWhile is_space s"

definition strip :: "string \<Rightarrow> string" where
  "strip s = rev (dropWhile is_space (rev (dropWhile is_space s)))"

text \<open>\<^verbatim>\<open>str.upper\<close>: the ASCII letters and the accented letters of Latin-1 move to
  their capitals, the sharp s (0xDF) becomes \<^verbatim>\<open>SS\<close>. The capitals of the micro sign
  (0xB5) and of y with a diaeresis (0xFF) lie beyond code point 255; the model leaves
  these two characters as they are, which like their true capitals are different from
  every ASCII letter.\<close>

definition upper_char :: "char \<Rightarrow> string" where
  "upper_char c =
     (let n = (of_char c :: nat)
      in if 97 \<le> n \<and> n \<le> 122 then [char_of (n - 32)]
         else if n = 223 then ''SS''
         else if 224 \<le> n \<and> n \<le> 254 \<and> n \<noteq> 247 then [char_of (n - 32)]
         else [c])"

definition upper :: "string \<Rightarrow> string" where
  "upper s = concat (map upper_char s)"

text \<open>\<^verbatim>\<open>s.replace(",", ".")\<close>.\<close>

definition replace_comma :: "string \<Rightarrow> string" where
  "replace_comma s = map (\<lambda>c. if c = CHR '','' then CHR ''.'' else c) s"

text \<open>\<^verbatim>\<open>s.split("-")[1]\<close>: the text between the first and the second hyphen. The
  scripts call it only when the string holds a hyphen; without one the index is out of
  range.\<close>

definition split_second :: "string \<Rightarrow> py_exception + string" where
  "split_second s =
     (case dropWhile (\<lambda>c. c \<noteq> CHR ''-'') s of
        [] \<Rightarrow> Inl IndexError
      | _ # r \<Rightarrow> Inr (takeWhile (\<lambda>c. c \<noteq> CHR ''-'') r))"

text \<open>\<^verbatim>\<open>float(s)\<close> on the texts the patterns capture: a run of digits, or two runs
  around a dot. Any other text is a \<^verbatim>\<open>ValueError\<close> here (the scripts pass none).\<close>

definition digit_value :: "char \<Rightarrow> nat" where
  "digit_value c = of_char c - 48"

definition digits_value :: "string \<Rightarrow> nat" where
  "digits_value ds = foldl (\<lambda>a c. 10 * a + digit_value c) 0 ds"

definition py_float :: "string \<Rightarrow> py_exception + rat" where
  "py_float s =
     (let ip = takeWhile is_digit s; r = dropWhile is_digit s
      in if ip = [] then Inl ValueError
         else case r of
           [] \<Rightarrow> Inr (of_nat (digits_value ip))
         | c # fp \<Rightarrow>
             if c = CHR ''.'' \<and> fp \<noteq> [] \<and> list_all is_digit fp
             then Inr (of_nat (digits_value ip) + of_nat (digits_value fp) / 10 ^ length fp)
             else Inl ValueError)"

subsection \<open>The regular expressions\<close>

text \<open>
  Each pattern of the scripts is a sequence of greedy tokens in which no token can give
  back a character that the next token accepts (a digit run is followed by white space
  or a letter, white space by a letter), so backtracking inside one attempt never finds
  a match the greedy attempt missed. A pattern is therefore a function that matches at
  the start of a text; \<^verbatim>\<open>re.search\<close> and the first element of \<^verbatim>\<open>re.findall\<close> try
  it at every position from the left.
\<close>

text \<open>A literal text.\<close>

definition lit :: "string \<Rightarrow> string \<Rightarrow> string option" where
  "lit l s = (if take (length l) s = l then Some (drop (length l) s) else None)"

text \<open>\<^verbatim>\<open>\d+\<close>: the digit run and the rest.\<close>

definition digits1 :: "string \<Rightarrow> (string \<times> string) option" where
  "digits1 s =
     (case takeWhile is_digit s of
        [] \<Rightarrow> None
      | d # ds \<Rightarrow> Some (d # ds, dropWhile is_digit s))"

text \<open>\<^verbatim>\<open>\d+(?:SEP\d+)?\<close>, where \<open>seps\<close> lists the separators (\<^verbatim>\<open>\.\<close> or \<^verbatim>\<open>[.,]\<close>).\<close>

definition number :: "string \<Rightarrow> string \<Rightarrow> (string \<times> string) option" where
  "number seps s =
     (case digits1 s of
        None \<Rightarrow> None
      | Some (ip, r) \<Rightarrow>
          (case r of
             [] \<Rightarrow> Some (ip, r)
           | c # r' \<Rightarrow>
               if c \<in> set seps
               then (case digits1 r' of
                       None \<Rightarrow> Some (ip, r)
                     | Some (fp, r'') \<Rightarrow> Some (ip @ c # fp, r''))
               else Some (ip, r)))"

text \<open>\<^verbatim>\<open>\s*\<close> and then a literal.\<close>

definition ws_lit :: "string \<Rightarrow> string \<Rightarrow> string option" where
  "ws_lit l s = lit l (skip_space s)"

text \<open>Leftmost match: the pattern is tried at every position, the empty rest last.\<close>

fun search :: "(string \<Rightarrow> 'a option) \<Rightarrow> string \<Rightarrow> 'a option" where
  "search p [] = p []"
| "search p (c # cs) = (case p (c # cs) of Some r \<Rightarrow> Some r | None \<Rightarrow> search p cs)"

text \<open>\<^verbatim>\<open>(\d+)\s*h\<close> of \<^verbatim>\<open>dilutioner.py\<close>; the result is group 1.\<close>

definition stability_pattern :: "string \<Rightarrow> string option" where
  "stability_pattern s =
     (case digits1 s of
        None \<Rightarrow> None
      | Some (g, r) \<Rightarrow> (case ws_lit ''h'' r of None \<Rightarrow> None | Some _ \<Rightarrow> Some g))"

text \<open>\<^verbatim>\<open>(\d+(?:\.\d+)?)\s*mg/mL\<close> of \<^verbatim>\<open>dilutioner.py\<close>; the result is group 1.\<close>

definition concentration_pattern :: "string \<Rightarrow> string option" where
  "concentration_pattern s =
     (case number ''.'' s of
        None \<Rightarrow> None
      | Some (g, r) \<Rightarrow> (case ws_lit ''mg/mL'' r of None \<Rightarrow> None | Some _ \<Rightarrow> Some g))"

text \<open>\<^verbatim>\<open>(\d+)\<close> of \<^verbatim>\<open>main.py\<close>.\<close>

definition integer_pattern :: "string \<Rightarrow> string option" where
  "integer_pattern s = (case digits1 s of None \<Rightarrow> None | Some (g, r) \<Rightarrow> Some g)"

text \<open>\<^verbatim>\<open>pattern2\<close> of \<^verbatim>\<open>main.py\<close>, "X g dans Y ml": groups 1 and 2.\<close>

definition pattern2 :: "string \<Rightarrow> (string \<times> string) option" where
  "pattern2 s =
     (case number ''.,'' s of
        None \<Rightarrow> None
      | Some (g1, r1) \<Rightarrow>
     (case ws_lit ''g'' r1 of
        None \<Rightarrow> None
      | Some r2 \<Rightarrow>
     (case ws_lit ''dans'' r2 of
        None \<Rightarrow> None
      | Some r3 \<Rightarrow>
     (case number ''.,'' (skip_space r3) of
        None \<Rightarrow> None
      | Some (g2, r4) \<Rightarrow>
     (case ws_lit ''ml'' r4 of
        None \<Rightarrow> None
      | Some _ \<Rightarrow> Some (g1, g2))))))"

text \<open>\<^verbatim>\<open>pattern1\<close> of \<^verbatim>\<open>main.py\<close>, "X a Y g dans Z ml" (a with a grave accent, 0xE0):
  groups 1, 2 and 3. After the first number, white space and the accented letter, the rest of the pattern is \<^verbatim>\<open>\s*\<close> and
  \<^verbatim>\<open>pattern2\<close>.\<close>

definition pattern1 :: "string \<Rightarrow> (string \<times> string \<times> string) option" where
  "pattern1 s =
     (case number ''.,'' s of
        None \<Rightarrow> None
      | Some (g1, r1) \<Rightarrow>
     (case ws_lit [CHR 0xE0] r1 of
        None \<Rightarrow> None
      | Some r2 \<Rightarrow>
     (case pattern2 (skip_space r2) of
        None \<Rightarrow> None
      | Some (g2, g3) \<Rightarrow> Some (g1, g2, g3))))"

text \<open>\<^verbatim>\<open>re.findall(p, s)[0]\<close>: the first match, or \<^verbatim>\<open>IndexError\<close> on the empty list.\<close>

definition findall_first :: "(string \<Rightarrow> 'a option) \<Rightarrow> string \<Rightarrow> py_exception + 'a" where
  "findall_first p s = (case search p s of None \<Rightarrow> Inl IndexError | Some g \<Rightarrow> Inr g)"

subsection \<open>Exceptions in sequence\<close>

text \<open>The next statement runs only if the one before raised nothing.\<close>

definition bind_exc :: "'e + 'a \<Rightarrow> ('a \<Rightarrow> 'e + 'b) \<Rightarrow> 'e + 'b" where
  "bind_exc r f = (case r of Inl e \<Rightarrow> Inl e | Inr x \<Rightarrow> f x)"

subsection \<open>Spreadsheet cells and what the scripts report\<close>

text \<open>A cell read by \<^verbatim>\<open>pandas\<close> is a text or the missing value \<^verbatim>\<open>NaN\<close> (an empty cell). A
  numeric cell is not modelled apart: where a script applies \<^verbatim>\<open>str\<close> to a cell, it
  stands here as the text \<^verbatim>\<open>str\<close> gives it. The dilution cell of Policy B, which
  \<^verbatim>\<open>main.py\<close> searches as it is, is modelled for a text and for the missing value.\<close>

datatype cell = NaN | Text string

text \<open>\<^verbatim>\<open>str(x)\<close> and \<^verbatim>\<open>pd.isna(x)\<close>.\<close>

fun py_str :: "cell \<Rightarrow> string" where
  "py_str NaN = ''nan''"
| "py_str (Text s) = s"

fun pd_isna :: "cell \<Rightarrow> bool" where
  "pd_isna NaN = True"
| "pd_isna (Text s) = False"

text \<open>The outcomes of a click other than a plan: one constructor for each message the
  scripts show with \<^verbatim>\<open>st.error\<close>, and \<open>Unhandled\<close> for an exception that no
  \<^verbatim>\<open>except\<close> clause of the script catches.\<close>

datatype failure =
    MoleculeNotFound
  | DoseNotPositive
  | StabilityFormatError
  | StabilityDataError
  | DilutionNotRecognised
  | DilutionFormatError
  | Unhandled py_exception

datatype material = PSE | pompe | IVL

section \<open>Policy A: \<^verbatim>\<open>dilutioner.py\<close>\<close>

subsection \<open>Loading the table\<close>

record row =
  Molecule :: string
  Solvent :: cell
  Concentration :: cell
  Stability :: cell
  Comment :: cell
  Reference :: cell

record variant =
  solvent :: cell
  concentration :: cell
  stability :: cell
  comment :: cell
  reference :: cell

definition variant_of :: "row \<Rightarrow> variant" where
  "variant_of r =
     \<lparr>solvent = Solvent r, concentration = Concentration r, stability = Stability r,
      comment = Comment r, reference = Reference r\<rparr>"

text \<open>The filter of the list comprehension.\<close>

definition has_concentration :: "row \<Rightarrow> bool" where
  "has_concentration r =
     (\<not> pd_isna (Concentration r) \<and> strip (py_str (Concentration r)) \<noteq> [])"

text \<open>\<^verbatim>\<open>load_data\<close>: one entry for each molecule of the table, holding the variants
  of its rows that pass the filter, in the order of the rows.\<close>

definition load_data :: "row list \<Rightarrow> (string \<rightharpoonup> variant list)" where
  "load_data df =
     (\<lambda>molecule.
        if molecule \<in> set (map Molecule df)
        then Some (map variant_of
               (filter has_concentration (filter (\<lambda>r. Molecule r = molecule) df)))
        else None)"

subsection \<open>The calculation\<close>

record plan =
  nb_infusion :: int
  volume_dilution :: int
  material :: material
  hours_between :: rat
  dosage_infusion :: rat
  concentration_reached :: rat
  max_val :: rat
  min_infusions :: int

text \<open>The stability in hours and the maximum concentration, as the script parses
  them.\<close>

definition stability_hours_of :: "string \<Rightarrow> py_exception + rat" where
  "stability_hours_of s = bind_exc (findall_first stability_pattern s) py_float"

definition max_val_of :: "string \<Rightarrow> py_exception + rat" where
  "max_val_of concentration_str =
     (if CHR ''-'' \<in> set concentration_str
      then bind_exc (split_second concentration_str)
             (\<lambda>part. bind_exc (findall_first concentration_pattern part) py_float)
      else bind_exc (findall_first concentration_pattern concentration_str) py_float)"

text \<open>The test of the search loop on one candidate \<open>n\<close>.\<close>

definition fits :: "rat \<Rightarrow> rat \<Rightarrow> rat \<Rightarrow> int \<Rightarrow> bool" where
  "fits stability_hours max_v dose_24h n =
     (24 mod n = 0 \<and> 24 / of_int n \<le> stability_hours
      \<and> dose_24h / of_int n * 1000 / 50 \<le> max_v)"

text \<open>The loop \<^verbatim>\<open>for n in range(min_infusions + 1, min_infusions * 2 + 1)\<close> appends the
  candidates that pass, in ascending order.\<close>

definition possible_infusions :: "rat \<Rightarrow> rat \<Rightarrow> rat \<Rightarrow> int \<Rightarrow> int list" where
  "possible_infusions stability_hours max_v dose_24h min_inf =
     filter (fits stability_hours max_v dose_24h) [min_inf + 1 .. min_inf * 2]"

text \<open>What follows the choice of the number of infusions: the interval, the dose of
  one infusion and the concentration shown in the result.\<close>

definition finish ::
  "rat \<Rightarrow> rat \<Rightarrow> int \<Rightarrow> int \<Rightarrow> int \<Rightarrow> material \<Rightarrow> py_exception + plan" where
  "finish dose_24h max_v min_inf nb vol mat =
     bind_exc (truediv 24 (of_int nb)) (\<lambda>hours.
     bind_exc (truediv dose_24h (of_int nb)) (\<lambda>dosage.
     bind_exc (truediv (dosage * 1000) (of_int vol)) (\<lambda>conc.
       Inr \<lparr>nb_infusion = nb, volume_dilution = vol, material = mat,
            hours_between = hours, dosage_infusion = dosage,
            concentration_reached = conc, max_val = max_v, min_infusions = min_inf\<rparr>)))"

text \<open>The three branches: the minimum number of infusions in a 50 mL syringe, more
  infusions in a 50 mL syringe, or the minimum number with a volumetric pump.\<close>

definition choose_plan :: "rat \<Rightarrow> rat \<Rightarrow> rat \<Rightarrow> py_exception + plan" where
  "choose_plan stability_hours max_v dose_24h =
     bind_exc (truediv 24 stability_hours) (\<lambda>q.
     let min_inf = py_int q in
     bind_exc (truediv dose_24h (of_int min_inf)) (\<lambda>dose_per_min_infusion.
     let concentration_needed = dose_per_min_infusion * 1000 / 50 in
     if concentration_needed \<le> max_v
     then finish dose_24h max_v min_inf min_inf 50 PSE
     else
       (case possible_infusions stability_hours max_v dose_24h min_inf of
          n # ns \<Rightarrow> finish dose_24h max_v min_inf (fold min ns n) 50 PSE
        | [] \<Rightarrow>
            bind_exc (truediv dose_24h (of_int min_inf)) (\<lambda>dose_per_infusion.
            bind_exc (truediv (dose_per_infusion * 1000) max_v) (\<lambda>v.
            let vol = math_ceil v in
            let vol' = math_ceil (of_int vol / 10) * 10 in
            finish dose_24h max_v min_inf min_inf vol' pompe)))))"

text \<open>The body of the \<^verbatim>\<open>try\<close> block.\<close>

definition try_body :: "variant \<Rightarrow> rat \<Rightarrow> py_exception + plan" where
  "try_body data dose_24h =
     bind_exc (stability_hours_of (py_str (stability data))) (\<lambda>stability_hours.
     bind_exc (max_val_of (py_str (concentration data))) (\<lambda>max_v.
       choose_plan stability_hours max_v dose_24h))"

text \<open>\<^verbatim>\<open>except (IndexError, ValueError)\<close> reports a format error and stops; any other
  exception leaves the script.\<close>

definition policy_A :: "variant \<Rightarrow> rat \<Rightarrow> failure + plan" where
  "policy_A data dose_24h =
     (case try_body data dose_24h of
        Inr p \<Rightarrow> Inr p
      | Inl IndexError \<Rightarrow> Inl StabilityFormatError
      | Inl ValueError \<Rightarrow> Inl StabilityFormatError
      | Inl e \<Rightarrow> Inl (Unhandled e))"

text \<open>The click on "Calculate": \<open>data\<close> is the variant the page has selected.\<close>

definition calculate ::
  "(string \<rightharpoonup> variant list) \<Rightarrow> string \<Rightarrow> variant \<Rightarrow> rat \<Rightarrow> failure + plan" where
  "calculate antibiotics molecule data dose_24h =
     (if antibiotics molecule = None then Inl MoleculeNotFound
      else if dose_24h \<le> 0 then Inl DoseNotPositive
      else policy_A data dose_24h)"

section \<open>Policy B: \<^verbatim>\<open>main.py\<close>\<close>

subsection \<open>Loading the table\<close>

record row_B =
  Molecule_B :: string
  Stabilite :: cell
  Dilution_pratique :: cell
  Solute_de_dilution :: cell
  Duree_administration :: cell

record entry =
  stabilite :: string
  dilution_pratique :: cell
  solute_de_dilution :: cell
  duree_administration :: string

definition entry_of :: "row_B \<Rightarrow> entry" where
  "entry_of r =
     \<lparr>stabilite = py_str (Stabilite r) @ ''h'',
      dilution_pratique = Dilution_pratique r,
      solute_de_dilution = Solute_de_dilution r,
      duree_administration = py_str (Duree_administration r)\<rparr>"

text \<open>The test before \<^verbatim>\<open>continue\<close>: \<^verbatim>\<open>pd.isna\<close> is applied to the text that \<^verbatim>\<open>str\<close>
  has already made of the cell.\<close>

definition skipped :: "row_B \<Rightarrow> bool" where
  "skipped r =
     (let dilution_str = py_str (Dilution_pratique r)
      in pd_isna (Text dilution_str) \<or> strip dilution_str = [])"

text \<open>The loop over the rows: a later row of the same molecule replaces the earlier
  one.\<close>

fun load_rows :: "row_B list \<Rightarrow> (string \<rightharpoonup> entry) \<Rightarrow> (string \<rightharpoonup> entry)" where
  "load_rows [] antibiotiques = antibiotiques"
| "load_rows (r # rs) antibiotiques =
     (if skipped r then load_rows rs antibiotiques
      else load_rows rs (antibiotiques(Molecule_B r \<mapsto> entry_of r)))"

definition load_data_B :: "row_B list \<Rightarrow> (string \<rightharpoonup> entry)" where
  "load_data_B df = load_rows df Map.empty"

subsection \<open>The calculation\<close>

record plan_B =
  nb_infusion_B :: int
  dosage_infusion_B :: rat
  max_val_B :: rat
  vol_ref :: rat
  volume_dilution_B :: rat
  volume_dilution_arrondi :: int
  materiel :: material

text \<open>The two matches and the \<^verbatim>\<open>if match1 / elif match2 / else\<close> that reads
  \<open>max_val\<close> and \<open>vol_ref\<close> from them. \<^verbatim>\<open>re.search\<close> needs a text.\<close>

definition re_search :: "(string \<Rightarrow> 'a option) \<Rightarrow> cell \<Rightarrow> py_exception + 'a option" where
  "re_search p c = (case c of NaN \<Rightarrow> Inl TypeError | Text s \<Rightarrow> Inr (search p s))"

definition float_comma :: "string \<Rightarrow> py_exception + rat" where
  "float_comma g = py_float (replace_comma g)"

definition read_dilution ::
  "(string \<times> string \<times> string) option \<Rightarrow> (string \<times> string) option
     \<Rightarrow> (failure + py_exception) + rat \<times> rat" where
  "read_dilution match1 match2 =
     (case match1 of
        Some (g1, g2, g3) \<Rightarrow>
          (case float_comma g2 of
             Inl e \<Rightarrow> Inl (Inr e)
           | Inr mv \<Rightarrow>
               (case float_comma g3 of Inl e \<Rightarrow> Inl (Inr e) | Inr vr \<Rightarrow> Inr (mv, vr)))
      | None \<Rightarrow>
          (case match2 of
             Some (g1, g2) \<Rightarrow>
               (case float_comma g1 of
                  Inl e \<Rightarrow> Inl (Inr e)
                | Inr mv \<Rightarrow>
                    (case float_comma g2 of Inl e \<Rightarrow> Inl (Inr e) | Inr vr \<Rightarrow> Inr (mv, vr)))
           | None \<Rightarrow> Inl (Inl DilutionNotRecognised)))"

text \<open>Step 5 of the script.\<close>

definition choose_materiel :: "string \<Rightarrow> int \<Rightarrow> material" where
  "choose_materiel duree arrondi =
     (if upper (strip duree) = ''NA'' then IVL
      else if arrondi \<le> 50 then PSE else pompe)"

text \<open>The \<^verbatim>\<open>else\<close> branch of the click. An \<^verbatim>\<open>IndexError\<close> of the stability and a
  \<^verbatim>\<open>ValueError\<close> of the dilution are reported; the divisions and \<^verbatim>\<open>re.search\<close> stand
  outside every handler that would catch what they raise.\<close>

definition policy_B :: "entry \<Rightarrow> rat \<Rightarrow> failure + plan_B" where
  "policy_B data dose_24h =
     (case bind_exc (findall_first integer_pattern (stabilite data)) py_float of
        Inl e \<Rightarrow> Inl (if e = IndexError then StabilityDataError else Unhandled e)
      | Inr stability_hours \<Rightarrow>
     (case truediv 24 stability_hours of
        Inl e \<Rightarrow> Inl (Unhandled e)
      | Inr q \<Rightarrow>
     let nb = py_int q in
     (case truediv dose_24h (of_int nb) of
        Inl e \<Rightarrow> Inl (Unhandled e)
      | Inr dosage \<Rightarrow>
     (case re_search pattern1 (dilution_pratique data) of
        Inl e \<Rightarrow> Inl (Unhandled e)
      | Inr match1 \<Rightarrow>
     (case re_search pattern2 (dilution_pratique data) of
        Inl e \<Rightarrow> Inl (Unhandled e)
      | Inr match2 \<Rightarrow>
     (case read_dilution match1 match2 of
        Inl (Inl f) \<Rightarrow> Inl f
      | Inl (Inr e) \<Rightarrow> Inl (if e = ValueError then DilutionFormatError else Unhandled e)
      | Inr (mv, vr) \<Rightarrow>
     (case truediv (dosage * vr) mv of
        Inl e \<Rightarrow> Inl (if e = ValueError then DilutionFormatError else Unhandled e)
      | Inr volume \<Rightarrow>
     let arrondi = py_round (volume / 10) * 10 in
       Inr \<lparr>nb_infusion_B = nb, dosage_infusion_B = dosage, max_val_B = mv, vol_ref = vr,
            volume_dilution_B = volume, volume_dilution_arrondi = arrondi,
            materiel = choose_materiel (duree_administration data) arrondi\<rparr>)))))))"

text \<open>The click on "Calculer".\<close>

definition calculer :: "(string \<rightharpoonup> entry) \<Rightarrow> string \<Rightarrow> rat \<Rightarrow> failure + plan_B" where
  "calculer antibiotiques molecule dose_24h =
     (case antibiotiques molecule of
        None \<Rightarrow> Inl MoleculeNotFound
      | Some data \<Rightarrow>
          if dose_24h \<le> 0 then Inl DoseNotPositive else policy_B data dose_24h)"

section \<open>The search of Policy A as the specification words it\<close>



section \<open>Table rows used in the examples\<close>

definition variant_with :: "string \<Rightarrow> string \<Rightarrow> variant" where
  "variant_with st co =
     \<lparr>solvent = Text ''NaCl 0.9%'', concentration = Text co, stability = Text st,
      comment = NaN, reference = NaN\<rparr>"

definition entry_with :: "string \<Rightarrow> cell \<Rightarrow> string \<Rightarrow> entry" where
  "entry_with st di du =
     \<lparr>stabilite = st, dilution_pratique = di, solute_de_dilution = Text ''G5%'',
      duree_administration = du\<rparr>"

text \<open>"1 a 2 g dans 100 ml", with the accented letter.\<close>

definition one_to_two_g_in_100_ml :: string where
  "one_to_two_g_in_100_ml = ''1 '' @ [CHR 0xE0] @ '' 2 g dans 100 ml''"

section \<open>Properties of Policy A\<close>

subsection \<open>The split search\<close>




lemma fold_min_member: "fold min ys (y::int) \<in> set (y # ys)"
proof (induction ys arbitrary: y)
  case Nil
  then show ?case by simp
next
  case (Cons z zs)
  have "fold min zs (min z y) \<in> set (min z y # zs)"
    by (rule Cons.IH)
  moreover have "min z y = z \<or> min z y = y"
    by (simp add: min_def)
  ultimately show ?case
    by auto
qed



lemma search_Some: "search p s = Some r \<Longrightarrow> \<exists>t. p t = Some r"
  by (induction s) (auto split: option.splits)





lemma finish_Inr:
  "finish d mv k nb vol mat = Inr p \<longleftrightarrow>
     nb \<noteq> 0 \<and> vol \<noteq> 0 \<and>
     p = \<lparr>nb_infusion = nb, volume_dilution = vol, material = mat,
           hours_between = 24 / of_int nb, dosage_infusion = d / of_int nb,
           concentration_reached = d / of_int nb * 1000 / of_int vol,
           max_val = mv, min_infusions = k\<rparr>"
  by (auto simp: finish_def bind_exc_def truediv_def)

lemma choose_plan_cases:
  assumes "choose_plan sh mv d = Inr p"
  obtains
    (minimum) k where "sh \<noteq> 0" "k = py_int (24 / sh)" "k \<noteq> 0"
      "d / of_int k * 1000 / 50 \<le> mv"
      "finish d mv k k 50 PSE = Inr p"
  | (split) k n ns where "sh \<noteq> 0" "k = py_int (24 / sh)" "k \<noteq> 0"
      "\<not> d / of_int k * 1000 / 50 \<le> mv"
      "possible_infusions sh mv d k = n # ns"
      "finish d mv k (fold min ns n) 50 PSE = Inr p"
  | (pump) k where "sh \<noteq> 0" "k = py_int (24 / sh)" "k \<noteq> 0"
      "\<not> d / of_int k * 1000 / 50 \<le> mv"
      "possible_infusions sh mv d k = []" "mv \<noteq> 0"
      "finish d mv k k (math_ceil (of_int (math_ceil (d / of_int k * 1000 / mv)) / 10) * 10) pompe = Inr p"
  using assms
  by (auto simp: choose_plan_def bind_exc_def truediv_def Let_def split: if_splits list.splits)

lemma policy_A_Inr: "policy_A data d = Inr p \<longleftrightarrow> try_body data d = Inr p"
  by (auto simp: policy_A_def split: sum.splits py_exception.splits)

lemma try_body_Inr:
  "try_body data d = Inr p \<longleftrightarrow>
     (\<exists>sh mv. stability_hours_of (py_str (stability data)) = Inr sh
        \<and> max_val_of (py_str (concentration data)) = Inr mv
        \<and> choose_plan sh mv d = Inr p)"
  by (auto simp: try_body_def bind_exc_def split: sum.splits)

lemma ceil_ten_ge: "(v::rat) \<le> of_int (math_ceil (of_int (math_ceil v) / 10) * 10)"
proof -
  have "v \<le> of_int \<lceil>v\<rceil>" by linarith
  moreover have "(of_int \<lceil>v\<rceil> :: rat) / 10 \<le> of_int \<lceil>(of_int \<lceil>v\<rceil> :: rat) / 10\<rceil>"
    by linarith
  ultimately have "v \<le> of_int \<lceil>(of_int \<lceil>v\<rceil> :: rat) / 10\<rceil> * 10"
    by linarith
  then show ?thesis
    by (simp add: math_ceil_def)
qed

lemma pump_volume_within_limit:
  assumes "0 < x" "0 < mv"
  defines "vol \<equiv> math_ceil (of_int (math_ceil (x / mv)) / 10) * 10"
  shows "0 < vol" and "x / of_int vol \<le> mv"
proof -
  have "x / mv \<le> of_int vol"
    unfolding vol_def by (rule ceil_ten_ge)
  moreover have "0 < x / mv"
    using assms by simp
  ultimately have pos: "(0::rat) < of_int vol"
    by linarith
  then show "0 < vol" by simp
  from \<open>x / mv \<le> of_int vol\<close> \<open>0 < mv\<close> have "x \<le> of_int vol * mv"
    by (simp add: pos_divide_le_eq)
  with pos show "x / of_int vol \<le> mv"
    by (simp add: pos_divide_le_eq mult.commute)
qed




subsection \<open>The concentration of a plan\<close>



section \<open>Properties of Policy B\<close>

subsection \<open>The infusion material\<close>

text \<open>Upper-casing gives \<^verbatim>\<open>NA\<close> for exactly the four spellings of the two letters.\<close>

lemma upper_char_N: "\<forall>c::char. (upper_char c = ''N'') = (c = CHR ''N'' \<or> c = CHR ''n'')"
  by code_simp

lemma upper_char_A: "\<forall>c::char. (upper_char c = ''A'') = (c = CHR ''A'' \<or> c = CHR ''a'')"
  by code_simp

lemma upper_char_shape: "\<forall>c::char. length (upper_char c) = 1 \<or> upper_char c = ''SS''"
  by code_simp

lemma upper_Cons: "upper (c # s) = upper_char c @ upper s"
  by (simp add: upper_def)

lemma upper_Nil_iff: "upper s = [] \<longleftrightarrow> s = []"
proof (cases s)
  case Nil
  then show ?thesis by (simp add: upper_def)
next
  case (Cons c t)
  from upper_char_shape have "upper_char c \<noteq> []"
    by (metis length_0_conv list.distinct(1) zero_neq_one)
  with Cons show ?thesis
    by (simp add: upper_Cons)
qed

lemma upper_char_append_eq:
  assumes "upper_char c @ r = x # t" "x \<noteq> CHR ''S''"
  shows "upper_char c = [x] \<and> r = t"
proof -
  from upper_char_shape have "length (upper_char c) = 1 \<or> upper_char c = ''SS''"
    by blast
  then show ?thesis
  proof
    assume "length (upper_char c) = 1"
    then obtain y where "upper_char c = [y]"
      by (cases "upper_char c") auto
    with assms show ?thesis by simp
  next
    assume "upper_char c = ''SS''"
    with assms show ?thesis by simp
  qed
qed

lemma upper_eq_NA: "upper s = ''NA'' \<longleftrightarrow> s \<in> {''NA'', ''Na'', ''nA'', ''na''}"
proof
  assume s: "upper s = ''NA''"
  then obtain c t where "s = c # t"
    by (cases s) (auto simp: upper_def)
  with s have "upper_char c @ upper t = ''NA''"
    by (simp add: upper_Cons)
  then have c: "upper_char c = ''N''" and t: "upper t = ''A''"
    using upper_char_append_eq [of c "upper t" "CHR ''N''" "''A''"] by simp_all
  from t obtain d u where "t = d # u"
    by (cases t) (auto simp: upper_def)
  with t have "upper_char d @ upper u = ''A''"
    by (simp add: upper_Cons)
  then have d: "upper_char d = ''A''" and "upper u = []"
    using upper_char_append_eq [of d "upper u" "CHR ''A''" "[]"] by simp_all
  then have "u = []"
    by (simp add: upper_Nil_iff)
  from c have "c = CHR ''N'' \<or> c = CHR ''n''"
    using upper_char_N by blast
  moreover from d have "d = CHR ''A'' \<or> d = CHR ''a''"
    using upper_char_A by blast
  ultimately show "s \<in> {''NA'', ''Na'', ''nA'', ''na''}"
    using \<open>s = c # t\<close> \<open>t = d # u\<close> \<open>u = []\<close> by auto
next
  assume "s \<in> {''NA'', ''Na'', ''nA'', ''na''}"
  moreover have "upper ''NA'' = ''NA''" "upper ''Na'' = ''NA''" "upper ''nA'' = ''NA''"
    "upper ''na'' = ''NA''"
    by code_simp+
  ultimately show "upper s = ''NA''"
    by auto
qed

lemma policy_B_Inr:
  assumes "policy_B data d = Inr p"
  obtains g sh s mv vr where
    "findall_first integer_pattern (stabilite data) = Inr g" "py_float g = Inr sh"
    "sh \<noteq> 0" "py_int (24 / sh) \<noteq> 0" "dilution_pratique data = Text s"
    "read_dilution (search pattern1 s) (search pattern2 s) = Inr (mv, vr)" "mv \<noteq> 0"
    "p = \<lparr>nb_infusion_B = py_int (24 / sh),
          dosage_infusion_B = d / of_int (py_int (24 / sh)), max_val_B = mv, vol_ref = vr,
          volume_dilution_B = d / of_int (py_int (24 / sh)) * vr / mv,
          volume_dilution_arrondi = py_round (d / of_int (py_int (24 / sh)) * vr / mv / 10) * 10,
          materiel = choose_materiel (duree_administration data)
            (py_round (d / of_int (py_int (24 / sh)) * vr / mv / 10) * 10)\<rparr>"
  using assms
  by (auto simp: policy_B_def bind_exc_def truediv_def Let_def re_search_def
      split: sum.splits if_splits cell.splits)

text \<open>
  Claim C8. Under Policy B, whenever a plan is produced: if the administration
  duration, trimmed and compared without regard to case, is "NA" the material is the
  gravity line (IVL); otherwise it is the syringe pump (PSE) when the rounded dilution
  volume is at most 50 mL and the volumetric pump (pompe) when it exceeds 50 mL. The
  rounded volume is the dilution volume rounded to a multiple of 10 mL.
\<close>

theorem policy_B_materiel_selection:
  assumes "policy_B data dose_24h = Inr p"
  shows "materiel p =
           (if strip (duree_administration data) \<in> {''NA'', ''Na'', ''nA'', ''na''} then IVL
            else if volume_dilution_arrondi p \<le> 50 then PSE else pompe)
    \<and> volume_dilution_arrondi p = py_round (volume_dilution_B p / 10) * 10"
  using assms
  by (cases rule: policy_B_Inr) (simp add: choose_materiel_def upper_eq_NA)

text \<open>One plan for each material.\<close>

theorem policy_B_materiel_selection_witness:
  "policy_B (entry_with ''24h'' (Text one_to_two_g_in_100_ml) '' na '') (3 / 2) =
     Inr \<lparr>nb_infusion_B = 1, dosage_infusion_B = 3 / 2, max_val_B = 2, vol_ref = 100,
          volume_dilution_B = 75, volume_dilution_arrondi = 80, materiel = IVL\<rparr>
   \<and> strip '' na '' = ''na''
   \<and> policy_B (entry_with ''24h'' (Text one_to_two_g_in_100_ml) ''30 min'') 1 =
     Inr \<lparr>nb_infusion_B = 1, dosage_infusion_B = 1, max_val_B = 2, vol_ref = 100,
          volume_dilution_B = 50, volume_dilution_arrondi = 50, materiel = PSE\<rparr>
   \<and> policy_B (entry_with ''24h'' (Text one_to_two_g_in_100_ml) ''30 min'') (3 / 2) =
     Inr \<lparr>nb_infusion_B = 1, dosage_infusion_B = 3 / 2, max_val_B = 2, vol_ref = 100,
          volume_dilution_B = 75, volume_dilution_arrondi = 80, materiel = pompe\<rparr>
   \<and> strip ''30 min'' = ''30 min''"
proof -
  have a: "policy_B (entry_with ''24h'' (Text one_to_two_g_in_100_ml) '' na '') (3 / 2) =
     Inr \<lparr>nb_infusion_B = 1, dosage_infusion_B = 3 / 2, max_val_B = 2, vol_ref = 100,
          volume_dilution_B = 75, volume_dilution_arrondi = 80, materiel = IVL\<rparr>"
    by code_simp
  have b: "policy_B (entry_with ''24h'' (Text one_to_two_g_in_100_ml) ''30 min'') 1 =
     Inr \<lparr>nb_infusion_B = 1, dosage_infusion_B = 1, max_val_B = 2, vol_ref = 100,
          volume_dilution_B = 50, volume_dilution_arrondi = 50, materiel = PSE\<rparr>"
    by code_simp
  have c: "policy_B (entry_with ''24h'' (Text one_to_two_g_in_100_ml) ''30 min'') (3 / 2) =
     Inr \<lparr>nb_infusion_B = 1, dosage_infusion_B = 3 / 2, max_val_B = 2, vol_ref = 100,
          volume_dilution_B = 75, volume_dilution_arrondi = 80, materiel = pompe\<rparr>"
    by code_simp
  have d: "strip '' na '' = ''na''" "strip ''30 min'' = ''30 min''"
    by code_simp+
  from policy_B_materiel_selection [OF a] policy_B_materiel_selection [OF b]
    policy_B_materiel_selection [OF c] a b c d
  show ?thesis
    by simp
qed

subsection \<open>The scenario of the specification\<close>

lemma policy_B_reached:
  assumes "findall_first integer_pattern (stabilite data) = Inr g" "py_float g = Inr sh"
    "sh \<noteq> 0" "nb = py_int (24 / sh)" "nb \<noteq> 0" "dilution_pratique data = Text s"
  shows "policy_B data d =
    (case read_dilution (search pattern1 s) (search pattern2 s) of
       Inl (Inl f) \<Rightarrow> Inl f
     | Inl (Inr e) \<Rightarrow> Inl (if e = ValueError then DilutionFormatError else Unhandled e)
     | Inr (mv, vr) \<Rightarrow>
         if mv = 0 then Inl (Unhandled ZeroDivisionError)
         else Inr \<lparr>nb_infusion_B = nb, dosage_infusion_B = d / of_int nb, max_val_B = mv,
                vol_ref = vr, volume_dilution_B = d / of_int nb * vr / mv,
                volume_dilution_arrondi = py_round (d / of_int nb * vr / mv / 10) * 10,
                materiel = choose_materiel (duree_administration data)
                  (py_round (d / of_int nb * vr / mv / 10) * 10)\<rparr>)"
  using assms
  by (simp add: policy_B_def bind_exc_def truediv_def Let_def re_search_def
      split: sum.splits)

lemma scenario_any_duration:
  "policy_B
     \<lparr>stabilite = ''24h'',
      dilution_pratique = Text (''1 '' @ [CHR 0xE0] @ '' 2 g dans 100 ml''),
      solute_de_dilution = solute, duree_administration = duree\<rparr> (3 / 2) =
   Inr \<lparr>nb_infusion_B = 1, dosage_infusion_B = 3 / 2, max_val_B = 2, vol_ref = 100,
        volume_dilution_B = 75, volume_dilution_arrondi = 80,
        materiel = choose_materiel duree 80\<rparr>"
proof -
  have g: "findall_first integer_pattern ''24h'' = Inr ''24''"
    by code_simp
  have sh: "py_float ''24'' = Inr 24"
    by code_simp
  have nb: "py_int 1 = 1"
    by (simp add: py_int_def)
  have rd: "read_dilution (search pattern1 (''1 '' @ [CHR 0xE0] @ '' 2 g dans 100 ml''))
      (search pattern2 (''1 '' @ [CHR 0xE0] @ '' 2 g dans 100 ml'')) = Inr (2, 100)"
    by code_simp
  have r: "py_round (15 / 2) = 8"
    by code_simp
  show ?thesis
    by (subst policy_B_reached [where g = "''24''" and sh = 24 and nb = 1
          and s = "''1 '' @ [CHR 0xE0] @ '' 2 g dans 100 ml''"])
      (simp_all add: g sh nb rd r del: append.simps)
qed

text \<open>
  Claim C6. Under Policy B, stability "24h", dilution "1 a 2 g dans 100 ml" (with the
  accented letter), a total daily dose of 1.5 g and an administration duration that is
  not "NA" (in the sense of the material rule: trimmed, case ignored) give one infusion
  of 1.5 g, \<open>max_val = 2\<close>, \<open>vol_ref = 100\<close>, a volume of 75 mL rounded to 80 mL, and
  the volumetric pump.
\<close>

theorem policy_B_scenario:
  assumes "upper (strip duree) \<noteq> ''NA''"
  shows "policy_B
     \<lparr>stabilite = ''24h'',
      dilution_pratique = Text (''1 '' @ [CHR 0xE0] @ '' 2 g dans 100 ml''),
      solute_de_dilution = solute, duree_administration = duree\<rparr> (3 / 2) =
   Inr \<lparr>nb_infusion_B = 1, dosage_infusion_B = 3 / 2, max_val_B = 2, vol_ref = 100,
        volume_dilution_B = 75, volume_dilution_arrondi = 80, materiel = pompe\<rparr>"
  using assms unfolding scenario_any_duration by (simp add: choose_materiel_def)

theorem policy_B_scenario_witness:
  "upper (strip ''30 min'') \<noteq> ''NA''
   \<and> policy_B
     \<lparr>stabilite = ''24h'',
      dilution_pratique = Text (''1 '' @ [CHR 0xE0] @ '' 2 g dans 100 ml''),
      solute_de_dilution = Text ''G5%'', duree_administration = ''30 min''\<rparr> (3 / 2) =
   Inr \<lparr>nb_infusion_B = 1, dosage_infusion_B = 3 / 2, max_val_B = 2, vol_ref = 100,
        volume_dilution_B = 75, volume_dilution_arrondi = 80, materiel = pompe\<rparr>"
proof -
  have h: "upper (strip ''30 min'') \<noteq> ''NA''"
    by code_simp
  from policy_B_scenario [OF h, of "Text ''G5%''"] h show ?thesis
    by simp
qed

subsection \<open>Reading the dilution\<close>

text \<open>What the patterns capture as a number always converts: \<^verbatim>\<open>float\<close> after
  \<^verbatim>\<open>replace(",", ".")\<close> never raises on a captured group.\<close>

lemma digit_not_comma: "is_digit c \<Longrightarrow> c \<noteq> CHR '',''"
  by (auto simp: is_digit_def)

lemma replace_comma_digits: "\<forall>c \<in> set ds. is_digit c \<Longrightarrow> replace_comma ds = ds"
  unfolding replace_comma_def by (rule map_idI) (simp add: digit_not_comma)

lemma replace_comma_append:
  "replace_comma (xs @ c # ys) =
     replace_comma xs @ (if c = CHR '','' then CHR ''.'' else c) # replace_comma ys"
  by (simp add: replace_comma_def)

lemma py_float_digits:
  assumes "ds \<noteq> []" "\<forall>c \<in> set ds. is_digit c"
  shows "py_float ds = Inr (of_nat (digits_value ds))"
proof -
  have t: "takeWhile is_digit ds = ds"
    using assms(2) by simp
  have d: "dropWhile is_digit ds = []"
    using assms(2) by simp
  show ?thesis
    unfolding py_float_def Let_def t d using assms(1) by simp
qed

lemma py_float_decimal:
  assumes "ip \<noteq> []" "\<forall>c \<in> set ip. is_digit c" "fp \<noteq> []" "\<forall>c \<in> set fp. is_digit c"
  shows "py_float (ip @ CHR ''.'' # fp) =
    Inr (of_nat (digits_value ip) + of_nat (digits_value fp) / 10 ^ length fp)"
proof -
  have nd: "\<not> is_digit CHR ''.''"
    by (simp add: is_digit_def)
  from assms(2) nd have "takeWhile is_digit (ip @ CHR ''.'' # fp) = ip"
    by simp
  moreover from assms(2) nd have "dropWhile is_digit (ip @ CHR ''.'' # fp) = CHR ''.'' # fp"
    by simp
  ultimately show ?thesis
    using assms(1,3,4) by (simp add: py_float_def list_all_iff)
qed

lemma digits1_Some:
  assumes "digits1 s = Some (ds, r)"
  shows "ds \<noteq> []" and "\<forall>c \<in> set ds. is_digit c"
proof -
  from assms have ds: "ds = takeWhile is_digit s" and "ds \<noteq> []"
    by (auto simp: digits1_def split: list.splits)
  then show "ds \<noteq> []" by simp
  from ds show "\<forall>c \<in> set ds. is_digit c"
    by (auto dest: set_takeWhileD)
qed

lemma number_converts:
  assumes "number ''.,'' s = Some (g, r)"
  shows "\<exists>x. float_comma g = Inr x"
proof -
  from assms obtain ip r0 where ip: "digits1 s = Some (ip, r0)"
    by (auto simp: number_def split: option.splits)
  note d = digits1_Some [OF ip]
  from d have plain: "float_comma ip = Inr (of_nat (digits_value ip))"
    by (simp add: float_comma_def replace_comma_digits py_float_digits)
  show ?thesis
  proof (cases "g = ip")
    case True
    with plain show ?thesis by simp
  next
    case False
    with assms ip obtain c r1 fp r2 where
      "r0 = c # r1" "c = CHR ''.'' \<or> c = CHR '',''" "digits1 r1 = Some (fp, r2)"
      "g = ip @ c # fp"
      by (auto simp: number_def split: list.splits if_splits option.splits)
    moreover note f = digits1_Some [OF \<open>digits1 r1 = Some (fp, r2)\<close>]
    ultimately have "replace_comma g = ip @ CHR ''.'' # fp"
      using d by (auto simp: replace_comma_append replace_comma_digits)
    with d f show ?thesis
      by (simp add: float_comma_def py_float_decimal)
  qed
qed

lemma pattern2_numbers:
  assumes "pattern2 t = Some (A, C)"
  shows "\<exists>r1 u r4. number ''.,'' t = Some (A, r1) \<and> number ''.,'' u = Some (C, r4)"
  using assms unfolding pattern2_def
  by (simp split: option.splits prod.splits) blast

lemma pattern2_converts:
  assumes "pattern2 t = Some (A, C)"
  shows "\<exists>x y. float_comma A = Inr x \<and> float_comma C = Inr y"
  using pattern2_numbers [OF assms] number_converts by blast

lemma pattern1_converts:
  assumes "pattern1 t = Some (A, B, C)"
  shows "\<exists>x y. float_comma B = Inr x \<and> float_comma C = Inr y"
proof -
  from assms have "\<exists>u. pattern2 u = Some (B, C)"
    unfolding pattern1_def by (simp split: option.splits prod.splits) blast
  then show ?thesis
    using pattern2_converts by blast
qed

text \<open>
  Claim C7. Under Policy B, for a request that reaches the dilution step: when
  \<^verbatim>\<open>pattern1\<close> ("A a B g dans C ml") matches, \<open>max_val\<close> is B and \<open>vol_ref\<close> is C; only
  when it does not match is \<^verbatim>\<open>pattern2\<close> ("A g dans C ml") used, with \<open>max_val\<close> A and
  \<open>vol_ref\<close> C; the captured numbers are converted after their decimal comma has been
  replaced by a dot, so a comma and a dot give the same number; and when neither pattern
  matches, the request ends with the message that the dilution format is not recognised
  and no plan is produced.
\<close>

theorem policy_B_dilution_patterns:
  assumes "findall_first integer_pattern (stabilite data) = Inr g" "py_float g = Inr sh"
    "sh \<noteq> 0" "nb = py_int (24 / sh)" "nb \<noteq> 0" "dilution_pratique data = Text s"
  shows "(\<forall>A B C. search pattern1 s = Some (A, B, C) \<longrightarrow>
            (\<exists>mv vr. float_comma B = Inr mv \<and> float_comma C = Inr vr
               \<and> (mv \<noteq> 0 \<longrightarrow> (\<exists>p. policy_B data dose_24h = Inr p
                      \<and> max_val_B p = mv \<and> vol_ref p = vr))))
    \<and> (\<forall>A C. search pattern1 s = None \<and> search pattern2 s = Some (A, C) \<longrightarrow>
            (\<exists>mv vr. float_comma A = Inr mv \<and> float_comma C = Inr vr
               \<and> (mv \<noteq> 0 \<longrightarrow> (\<exists>p. policy_B data dose_24h = Inr p
                      \<and> max_val_B p = mv \<and> vol_ref p = vr))))
    \<and> (search pattern1 s = None \<and> search pattern2 s = None \<longrightarrow>
            policy_B data dose_24h = Inl DilutionNotRecognised)
    \<and> (\<forall>ip fp. float_comma (ip @ '','' @ fp) = float_comma (ip @ ''.'' @ fp))"
proof -
  note closed = policy_B_reached [OF assms, of dose_24h]
  have plan: "\<exists>p. policy_B data dose_24h = Inr p \<and> max_val_B p = mv \<and> vol_ref p = vr"
    if "read_dilution (search pattern1 s) (search pattern2 s) = Inr (mv, vr)" "mv \<noteq> 0"
    for mv vr
    by (subst closed, simp only: that sum.case prod.case if_False) simp
  have first: "\<exists>mv vr. float_comma B = Inr mv \<and> float_comma C = Inr vr
        \<and> (mv \<noteq> 0 \<longrightarrow> (\<exists>p. policy_B data dose_24h = Inr p
              \<and> max_val_B p = mv \<and> vol_ref p = vr))"
    if m: "search pattern1 s = Some (A, B, C)" for A B C
  proof -
    from search_Some [OF m] obtain t where "pattern1 t = Some (A, B, C)"
      by blast
    from pattern1_converts [OF this] obtain mv vr where c: "float_comma B = Inr mv" "float_comma C = Inr vr"
      by blast
    with m have "read_dilution (search pattern1 s) (search pattern2 s) = Inr (mv, vr)"
      by (simp add: read_dilution_def)
    from plan [OF this] c show ?thesis
      by (intro exI [of _ mv] exI [of _ vr] conjI impI)
  qed
  have second: "\<exists>mv vr. float_comma A = Inr mv \<and> float_comma C = Inr vr
        \<and> (mv \<noteq> 0 \<longrightarrow> (\<exists>p. policy_B data dose_24h = Inr p
              \<and> max_val_B p = mv \<and> vol_ref p = vr))"
    if m: "search pattern1 s = None \<and> search pattern2 s = Some (A, C)" for A C
  proof -
    from m have "search pattern2 s = Some (A, C)"
      by simp
    from search_Some [OF this] obtain t where "pattern2 t = Some (A, C)"
      by blast
    from pattern2_converts [OF this] obtain mv vr where c: "float_comma A = Inr mv" "float_comma C = Inr vr"
      by blast
    with m have "read_dilution (search pattern1 s) (search pattern2 s) = Inr (mv, vr)"
      by (simp add: read_dilution_def)
    from plan [OF this] c show ?thesis
      by (intro exI [of _ mv] exI [of _ vr] conjI impI)
  qed
  have neither: "policy_B data dose_24h = Inl DilutionNotRecognised"
    if "search pattern1 s = None \<and> search pattern2 s = None"
    by (subst closed) (simp add: that read_dilution_def)
  have comma: "float_comma (ip @ '','' @ fp) = float_comma (ip @ ''.'' @ fp)" for ip fp
    by (simp add: float_comma_def replace_comma_def)
  show ?thesis
    by (intro conjI allI impI) (erule first, erule second, erule neither, rule comma)
qed

text \<open>One dilution text for each of the three cases.\<close>

theorem policy_B_dilution_patterns_witness:
  "search pattern1 one_to_two_g_in_100_ml = Some (''1'', ''2'', ''100'')
   \<and> (\<exists>p. policy_B (entry_with ''24h'' (Text one_to_two_g_in_100_ml) ''30 min'') (3 / 2) = Inr p
          \<and> max_val_B p = 2 \<and> vol_ref p = 100)
   \<and> search pattern1 ''1,5 g dans 100 ml'' = None
   \<and> search pattern2 ''1,5 g dans 100 ml'' = Some (''1,5'', ''100'')
   \<and> (\<exists>p. policy_B (entry_with ''24h'' (Text ''1,5 g dans 100 ml'') ''30 min'') 3 = Inr p
          \<and> max_val_B p = 3 / 2 \<and> vol_ref p = 100)
   \<and> search pattern1 ''1 g dans 100 mL'' = None
   \<and> search pattern2 ''1 g dans 100 mL'' = None
   \<and> policy_B (entry_with ''24h'' (Text ''1 g dans 100 mL'') ''30 min'') 1 =
       Inl DilutionNotRecognised"
proof -
  have g: "findall_first integer_pattern (stabilite (entry_with ''24h'' di ''30 min'')) = Inr ''24''"
    for di
    unfolding entry_with_def entry.simps by code_simp
  have sh: "py_float ''24'' = Inr 24"
    by code_simp
  have nz: "(24::rat) \<noteq> 0"
    by simp
  have nb: "(1::int) = py_int (24 / 24)"
    by code_simp
  have nb0: "(1::int) \<noteq> 0"
    by simp
  have di: "dilution_pratique (entry_with ''24h'' (Text s) ''30 min'') = Text s" for s
    by (simp add: entry_with_def)
  note inst = policy_B_dilution_patterns [OF g sh nz nb nb0 di]
  have a1: "search pattern1 one_to_two_g_in_100_ml = Some (''1'', ''2'', ''100'')"
    by code_simp
  have a2: "float_comma ''2'' = Inr 2" "float_comma ''100'' = Inr 100"
    by code_simp+
  have a: "\<exists>p. policy_B (entry_with ''24h'' (Text one_to_two_g_in_100_ml) ''30 min'') (3 / 2) = Inr p
          \<and> max_val_B p = 2 \<and> vol_ref p = 100"
    using inst [of one_to_two_g_in_100_ml "3 / 2"] a1 a2 by auto
  have b1: "search pattern1 ''1,5 g dans 100 ml'' = None"
    "search pattern2 ''1,5 g dans 100 ml'' = Some (''1,5'', ''100'')"
    by code_simp+
  have b2: "float_comma ''1,5'' = Inr (3 / 2)"
    by code_simp
  have b: "\<exists>p. policy_B (entry_with ''24h'' (Text ''1,5 g dans 100 ml'') ''30 min'') 3 = Inr p
          \<and> max_val_B p = 3 / 2 \<and> vol_ref p = 100"
    using inst [of "''1,5 g dans 100 ml''" 3] b1 b2 a2 by auto
  have c1: "search pattern1 ''1 g dans 100 mL'' = None" "search pattern2 ''1 g dans 100 mL'' = None"
    by code_simp+
  have c: "policy_B (entry_with ''24h'' (Text ''1 g dans 100 mL'') ''30 min'') 1 =
       Inl DilutionNotRecognised"
    using inst [of "''1 g dans 100 mL''" 1] c1 by simp
  from a1 a b1 b c1 c show ?thesis
    by simp
qed

section \<open>The dose check of both scripts\<close>

text \<open>
  Claim C9, as amended. Under both policies a request with a total daily dose of 0 or
  less is rejected before anything is parsed or solved, whatever the table holds for the
  variant: with the dose message when the molecule is in the store, and with the
  unknown-molecule message when it is not, since the scripts test the molecule first.
  No plan is produced. For some dose above 0 each script produces a plan.
\<close>

theorem nonpositive_dose_rejected_before_parsing:
  assumes "dose_24h \<le> 0"
  shows "calculate antibiotics molecule data dose_24h =
           (if antibiotics molecule = None then Inl MoleculeNotFound else Inl DoseNotPositive)
    \<and> calculer antibiotiques molecule_B dose_24h =
           (if antibiotiques molecule_B = None then Inl MoleculeNotFound
            else Inl DoseNotPositive)
    \<and> (\<exists>store m v d p. 0 < d \<and> calculate store m v d = Inr p)
    \<and> (\<exists>store m d p. 0 < d \<and> calculer store m d = Inr p)"
proof (intro conjI)
  show "calculate antibiotics molecule data dose_24h =
      (if antibiotics molecule = None then Inl MoleculeNotFound else Inl DoseNotPositive)"
    using assms by (simp add: calculate_def)
  show "calculer antibiotiques molecule_B dose_24h =
      (if antibiotiques molecule_B = None then Inl MoleculeNotFound else Inl DoseNotPositive)"
    using assms by (simp add: calculer_def split: option.splits)
  have "calculate [''Cefazoline'' \<mapsto> [variant_with ''8h'' ''20 mg/mL'']] ''Cefazoline''
      (variant_with ''8h'' ''20 mg/mL'') (1 / 10) =
      Inr \<lparr>nb_infusion = 3, volume_dilution = 50, material = PSE, hours_between = 8,
           dosage_infusion = 1 / 30, concentration_reached = 2 / 3, max_val = 20,
           min_infusions = 3\<rparr>"
    by code_simp
  moreover have "(0::rat) < 1 / 10"
    by simp
  ultimately show "\<exists>store m v d p. 0 < d \<and> calculate store m v d = Inr p"
    by blast
  have "calculer [''Cefazoline'' \<mapsto> entry_with ''24h'' (Text one_to_two_g_in_100_ml) ''30 min'']
      ''Cefazoline'' 1 =
      Inr \<lparr>nb_infusion_B = 1, dosage_infusion_B = 1, max_val_B = 2, vol_ref = 100,
           volume_dilution_B = 50, volume_dilution_arrondi = 50, materiel = PSE\<rparr>"
    by code_simp
  moreover have "(0::rat) < 1"
    by simp
  ultimately show "\<exists>store m d p. 0 < d \<and> calculer store m d = Inr p"
    by blast
qed

text \<open>A dose of 0 for a molecule of the store whose table texts parse to nothing: the
  dose message comes first.\<close>

theorem nonpositive_dose_rejected_before_parsing_witness:
  "(0::rat) \<le> 0
   \<and> calculate [''Cefazoline'' \<mapsto> [variant_with ''no stability'' ''no limit'']] ''Cefazoline''
       (variant_with ''no stability'' ''no limit'') 0 = Inl DoseNotPositive
   \<and> calculer [''Cefazoline'' \<mapsto> entry_with ''h'' NaN ''NA''] ''Cefazoline'' 0 =
       Inl DoseNotPositive"
proof -
  have h: "(0::rat) \<le> 0"
    by simp
  have s: "[''Cefazoline'' \<mapsto> x] ''Cefazoline'' \<noteq> None" for x :: 'a
    by simp
  from nonpositive_dose_rejected_before_parsing [OF h,
      of "[''Cefazoline'' \<mapsto> [variant_with ''no stability'' ''no limit'']]" "''Cefazoline''"
         "variant_with ''no stability'' ''no limit''"
         "[''Cefazoline'' \<mapsto> entry_with ''h'' NaN ''NA'']" "''Cefazoline''"]
  show ?thesis
    by (simp del: fun_upd_apply add: s)
qed

text \<open>The claim as first stated, that every request with a dose of 0 or less is
  rejected for its dose, fails for a molecule that is not in the store.\<close>

theorem unknown_molecule_precedes_dose_check:
  "calculate Map.empty ''Cefazoline'' (variant_with ''8h'' ''20 mg/mL'') 0 = Inl MoleculeNotFound
   \<and> calculate Map.empty ''Cefazoline'' (variant_with ''8h'' ''20 mg/mL'') 0 \<noteq> Inl DoseNotPositive
   \<and> calculer Map.empty ''Cefazoline'' 0 = Inl MoleculeNotFound
   \<and> calculer Map.empty ''Cefazoline'' 0 \<noteq> Inl DoseNotPositive"
  by (simp add: calculate_def calculer_def)

section \<open>Where the scripts leave the specification\<close>

subsection \<open>Division by zero\<close>

text \<open>
  Claim C4. The claim: for every stability text and every concentration or dilution
  text, each solver ends in a plan or in a reported format error, and no exception
  leaves it unhandled, in particular for a text whose first integer is 0. The scripts
  catch \<^verbatim>\<open>IndexError\<close> and \<^verbatim>\<open>ValueError\<close> only: a stability of 0 h, a stability above
  24 h (which makes the number of infusions 0) and a maximum of 0 all end in a
  \<^verbatim>\<open>ZeroDivisionError\<close> that nothing handles, under both policies.
\<close>

theorem zero_division_is_not_handled:
  "policy_A (variant_with ''0h'' ''4 mg/mL'') 1 = Inl (Unhandled ZeroDivisionError)
   \<and> policy_A (variant_with ''48h'' ''4 mg/mL'') 1 = Inl (Unhandled ZeroDivisionError)
   \<and> policy_A (variant_with ''8h'' ''0 mg/mL'') 1 = Inl (Unhandled ZeroDivisionError)
   \<and> policy_B (entry_with ''0h'' (Text one_to_two_g_in_100_ml) ''30 min'') 1 =
       Inl (Unhandled ZeroDivisionError)
   \<and> policy_B (entry_with ''48h'' (Text one_to_two_g_in_100_ml) ''30 min'') 1 =
       Inl (Unhandled ZeroDivisionError)
   \<and> policy_B (entry_with ''8h'' (Text ''0 g dans 100 ml'') ''30 min'') 1 =
       Inl (Unhandled ZeroDivisionError)"
  by code_simp

subsection \<open>Policy A away from the division by zero\<close>

text \<open>The stability that the script parses is a whole number of hours, and the
  minimum number of infusions is the integer quotient of 24 by it.\<close>

lemma stability_hours_nat:
  assumes "stability_hours_of s = Inr sh"
  shows "\<exists>n::nat. sh = of_nat n"
proof -
  from assms obtain g where g: "search stability_pattern s = Some g" and f: "py_float g = Inr sh"
    by (auto simp: stability_hours_of_def bind_exc_def findall_first_def
        split: option.splits sum.splits)
  from search_Some [OF g] obtain t where "stability_pattern t = Some g"
    by blast
  then obtain r where "digits1 t = Some (g, r)"
    unfolding stability_pattern_def by (simp split: option.splits prod.splits)
  from digits1_Some [OF this] f show ?thesis
    by (auto simp: py_float_digits)
qed

lemma py_int_day: "0 < i \<Longrightarrow> py_int (24 / of_int i) = 24 div i"
proof -
  assume "0 < i"
  have "(24::rat) / of_int i = of_int 24 / of_int i"
    by simp
  also have "\<lfloor>\<dots>\<rfloor> = 24 div i"
    by (rule floor_divide_of_int_eq)
  finally show ?thesis
    using \<open>0 < i\<close> by (simp add: py_int_def)
qed

lemma day_table:
  "\<forall>i \<in> set [1..24::int].
     1 \<le> 24 div i \<and> 24 mod (24 div i) = 0
     \<and> (\<exists>d \<in> set [24 div i..2 * (24 div i)]. 24 mod d = 0 \<and> 24 \<le> d * i)"
  by code_simp

lemma day_divisor:
  assumes "1 \<le> (i::int)" "i \<le> 24"
  obtains d where "24 div i \<le> d" "d \<le> 2 * (24 div i)" "24 mod d = 0" "24 \<le> d * i"
proof -
  from assms have "i \<in> set [1..24]"
    by simp
  with day_table have "\<exists>d \<in> set [24 div i..2 * (24 div i)]. 24 mod d = 0 \<and> 24 \<le> d * i"
    by blast
  then show thesis
    by (elim bexE conjE) (rule that, simp_all)
qed

lemma plan_stability_range:
  assumes "stability_hours_of s = Inr sh" "sh \<noteq> 0" "py_int (24 / sh) \<noteq> 0"
  obtains i where "sh = of_int i" "1 \<le> i" "i \<le> 24" "py_int (24 / sh) = 24 div i"
proof -
  from stability_hours_nat [OF assms(1)] obtain n :: nat where n: "sh = of_nat n"
    by blast
  define i where "i = int n"
  with n have sh: "sh = of_int i"
    by simp
  with assms(2) i_def have "0 < i"
    by simp
  with sh have k: "py_int (24 / sh) = 24 div i"
    by (simp add: py_int_day)
  with assms(3) have "i \<le> 24"
    by (cases "i \<le> 24") (simp_all add: div_pos_pos_trivial)
  with sh \<open>0 < i\<close> k that show thesis
    by simp
qed

text \<open>With a stability from 1 h to 24 h, a maximum above 0 and a dose above 0, Policy A
  returns a plan, and the plan is the one the specification describes: a 50 mL syringe
  within the maximum when some candidate from \<open>k\<close> to \<open>2 * k\<close> passes the three tests,
  and otherwise the volumetric pump with the smallest positive multiple of 10 mL that
  keeps the concentration within the maximum. Rounding up twice (to a whole mL, then to
  a multiple of 10) is the same as rounding up to the multiple of 10 at once.\<close>

lemma pump_volume_least:
  assumes "0 < mv" "0 < v" "10 dvd v" "x / of_int v \<le> mv"
  shows "math_ceil (of_int (math_ceil (x / mv)) / 10) * 10 \<le> v"
proof -
  from assms(3) obtain j where j: "v = 10 * j"
    by (auto simp: dvd_def)
  from assms(2,4) have "x \<le> mv * of_int v"
    by (simp add: pos_divide_le_eq)
  with assms(1) have "x / mv \<le> of_int v"
    by (simp add: pos_divide_le_eq mult.commute)
  then have "\<lceil>x / mv\<rceil> \<le> v"
    by (simp add: ceiling_le_iff)
  then have "(of_int \<lceil>x / mv\<rceil> :: rat) / 10 \<le> of_int j"
    using j by simp
  then have "\<lceil>(of_int \<lceil>x / mv\<rceil> :: rat) / 10\<rceil> \<le> j"
    by (simp only: ceiling_le_iff)
  with j show ?thesis
    by (simp add: math_ceil_def)
qed

lemma more_infusions_lower_concentration:
  assumes "0 < dose" "0 < k" "k \<le> d"
  shows "dose / rat_of_int d * 1000 / 50 \<le> dose / of_int k * 1000 / 50"
proof -
  from assms have "dose / rat_of_int d \<le> dose / of_int k"
    by (intro divide_left_mono) (simp_all add: mult_pos_pos)
  then show ?thesis
    by simp
qed

lemma policy_A_plan_characterisation:
  assumes sh: "stability_hours_of (py_str (stability data)) = Inr sh"
    and mv: "max_val_of (py_str (concentration data)) = Inr mv"
    and range: "1 \<le> sh" "sh \<le> 24" and pos: "0 < mv" "0 < dose_24h"
    and k: "k = py_int (24 / sh)"
  shows "\<exists>p. policy_A data dose_24h = Inr p \<and>
     (if list_ex (fits sh mv dose_24h) [k..2 * k]
      then material p = PSE \<and> volume_dilution p = 50
        \<and> dosage_infusion p * 1000 / of_int (volume_dilution p) \<le> mv
      else material p = pompe \<and> nb_infusion p = k
        \<and> 0 < volume_dilution p \<and> 10 dvd volume_dilution p
        \<and> dosage_infusion p * 1000 / of_int (volume_dilution p) \<le> mv
        \<and> (\<forall>v. 0 < v \<and> 10 dvd v \<and> dosage_infusion p * 1000 / of_int v \<le> mv
              \<longrightarrow> volume_dilution p \<le> v))"
proof -
  from stability_hours_nat [OF sh] obtain n :: nat where n: "sh = of_nat n"
    by blast
  define i where "i = int n"
  with n have shi: "sh = of_int i"
    by simp
  with range have i: "1 \<le> i" "i \<le> 24"
    by simp_all
  with shi k have ki: "k = 24 div i"
    by (simp add: py_int_day)
  from day_table i have "1 \<le> 24 div i"
    by simp
  with ki have kpos: "0 < k"
    by simp
  from range have sh0: "sh \<noteq> 0"
    by auto
  have body: "policy_A data dose_24h = Inr p \<longleftrightarrow> choose_plan sh mv dose_24h = Inr p" for p
    using sh mv by (simp add: policy_A_Inr try_body_Inr)
  from day_divisor [OF i] ki obtain d where
    d: "k \<le> d" "d \<le> 2 * k" "24 mod d = 0" "24 \<le> d * i"
    by auto
  with kpos have dpos: "0 < d"
    by simp
  from d(4) dpos have "24 / rat_of_int d \<le> of_int i"
    by (simp add: pos_divide_le_eq mult.commute flip: of_int_mult)
  with shi have dstab: "24 / rat_of_int d \<le> sh"
    by simp
  show ?thesis
  proof (cases "dose_24h / of_int k * 1000 / 50 \<le> mv")
    case True
    with more_infusions_lower_concentration [OF pos(2) kpos d(1)]
    have "dose_24h / rat_of_int d * 1000 / 50 \<le> mv"
      by simp
    with d dstab have "fits sh mv dose_24h d"
      by (simp add: fits_def)
    with d have ex: "list_ex (fits sh mv dose_24h) [k..2 * k]"
      by (auto simp: list_ex_iff)
    from True sh0 kpos k have "choose_plan sh mv dose_24h = finish dose_24h mv k k 50 PSE"
      by (simp add: choose_plan_def bind_exc_def truediv_def Let_def)
    with kpos True ex show ?thesis
      by (simp add: body finish_def bind_exc_def truediv_def)
  next
    case False
    show ?thesis
    proof (cases "possible_infusions sh mv dose_24h k")
      case (Cons m ms)
      define nb where "nb = fold min ms m"
      have "nb \<in> set (possible_infusions sh mv dose_24h k)"
        using fold_min_member [of ms m] by (simp add: Cons nb_def)
      then have nb: "fits sh mv dose_24h nb" "k + 1 \<le> nb" "nb \<le> k * 2"
        by (simp_all add: possible_infusions_def)
      then have ex: "list_ex (fits sh mv dose_24h) [k..2 * k]"
        by (auto simp: list_ex_iff)
      from False sh0 kpos k Cons
      have "choose_plan sh mv dose_24h = finish dose_24h mv k nb 50 PSE"
        by (simp add: choose_plan_def bind_exc_def truediv_def Let_def nb_def)
      with nb kpos ex show ?thesis
        by (simp add: body finish_def bind_exc_def truediv_def fits_def)
    next
      case Nil
      have nex: "\<not> list_ex (fits sh mv dose_24h) [k..2 * k]"
      proof
        assume "list_ex (fits sh mv dose_24h) [k..2 * k]"
        then obtain m where m: "k \<le> m" "m \<le> 2 * k" "fits sh mv dose_24h m"
          by (auto simp: list_ex_iff)
        with False have "m \<noteq> k"
          by (auto simp: fits_def)
        with m have "m \<in> set (possible_infusions sh mv dose_24h k)"
          by (simp add: possible_infusions_def)
        with Nil show False
          by simp
      qed
      define x where "x = dose_24h / of_int k * 1000"
      define vol where "vol = math_ceil (of_int (math_ceil (x / mv)) / 10) * 10"
      from pos kpos have xpos: "0 < x"
        by (simp add: x_def)
      note within = pump_volume_within_limit [OF xpos pos(1), folded vol_def]
      have least: "vol \<le> v" if "0 < v" "10 dvd v" "x / of_int v \<le> mv" for v
        unfolding vol_def using pos(1) that by (rule pump_volume_least)
      have ten: "10 dvd vol"
        by (simp add: vol_def)
      from False sh0 kpos k Nil pos(1)
      have "choose_plan sh mv dose_24h = finish dose_24h mv k k vol pompe"
        by (simp add: choose_plan_def bind_exc_def truediv_def Let_def vol_def x_def)
      with kpos within have "choose_plan sh mv dose_24h =
          Inr \<lparr>nb_infusion = k, volume_dilution = vol, material = pompe,
               hours_between = 24 / of_int k, dosage_infusion = dose_24h / of_int k,
               concentration_reached = dose_24h / of_int k * 1000 / of_int vol,
               max_val = mv, min_infusions = k\<rparr>"
        by (simp add: finish_def bind_exc_def truediv_def)
      with nex within ten least show ?thesis
        by (simp add: body x_def)
    qed
  qed
qed

text \<open>
  Claim C1. The claim: for every variant whose texts parse and every dose above 0,
  Policy A returns a 50 mL syringe plan within the maximum when a candidate between
  \<open>min_infusions\<close> and \<open>2 * min_infusions\<close> passes the tests, and otherwise a volumetric
  pump plan with the smallest multiple of 10 mL within the maximum. A stability of 48 h
  and a maximum of 4 mg/mL parse, no candidate exists (the range is from 0 to 0), and
  the script returns no plan: it divides the dose by 0 infusions.
\<close>

theorem policy_A_no_plan_beyond_a_day:
  "stability_hours_of (py_str (stability (variant_with ''48h'' ''4 mg/mL''))) = Inr 48
   \<and> max_val_of (py_str (concentration (variant_with ''48h'' ''4 mg/mL''))) = Inr 4
   \<and> py_int (24 / 48) = 0
   \<and> list_ex (fits 48 4 1) [0..2 * 0] = False
   \<and> policy_A (variant_with ''48h'' ''4 mg/mL'') 1 = Inl (Unhandled ZeroDivisionError)"
  by code_simp

subsection \<open>The interval between infusions\<close>

text \<open>The number of infusions of every plan divides the day.\<close>

lemma policy_A_count_divides_day:
  assumes "policy_A data dose_24h = Inr p"
  shows "24 mod nb_infusion p = 0 \<and> 0 < nb_infusion p"
proof -
  from assms obtain sh mv where
    sh: "stability_hours_of (py_str (stability data)) = Inr sh" and
    plan: "choose_plan sh mv dose_24h = Inr p"
    by (auto simp: policy_A_Inr try_body_Inr)
  from plan show ?thesis
  proof (cases rule: choose_plan_cases)
    case (minimum k)
    with sh obtain i where i: "1 \<le> i" "i \<le> 24" "k = 24 div i"
      by (auto elim: plan_stability_range)
    then have "24 mod k = 0"
      using day_table by simp
    moreover from i have "0 \<le> k"
      by (simp add: pos_imp_zdiv_nonneg_iff)
    ultimately show ?thesis
      using minimum by (auto simp: finish_Inr)
  next
    case (split k n ns)
    with sh obtain i where i: "1 \<le> i" "i \<le> 24" "k = 24 div i"
      by (auto elim: plan_stability_range)
    then have "0 \<le> k"
      by (simp add: pos_imp_zdiv_nonneg_iff)
    have "fold min ns n \<in> set (possible_infusions sh mv dose_24h k)"
      using fold_min_member [of ns n] split(5) by simp
    then have "fits sh mv dose_24h (fold min ns n)" "k + 1 \<le> fold min ns n"
      by (simp_all add: possible_infusions_def)
    with \<open>0 \<le> k\<close> split show ?thesis
      by (auto simp: finish_Inr fits_def)
  next
    case (pump k)
    with sh obtain i where i: "1 \<le> i" "i \<le> 24" "k = 24 div i"
      by (auto elim: plan_stability_range)
    then have "24 mod k = 0"
      using day_table by simp
    moreover from i have "0 \<le> k"
      by (simp add: pos_imp_zdiv_nonneg_iff)
    ultimately show ?thesis
      using pump by (auto simp: finish_Inr)
  qed
qed

text \<open>
  Claim C2. The claim: under Policy A the returned number of infusions divides 24 and
  \<open>24 / nb_infusion\<close> is at most the stability, in every branch. The first half holds
  (lemma \<open>policy_A_count_divides_day\<close>). The second fails in the branch of the minimum
  number of infusions, which truncates \<open>24 / stability_hours\<close> and never compares the
  interval with the stability: a stability of 10 h gives 2 infusions, 12 h apart.
\<close>

theorem policy_A_interval_beyond_stability:
  "stability_hours_of (py_str (stability (variant_with ''10h'' ''20 mg/mL''))) = Inr 10
   \<and> policy_A (variant_with ''10h'' ''20 mg/mL'') 1 =
       Inr \<lparr>nb_infusion = 2, volume_dilution = 50, material = PSE, hours_between = 12,
            dosage_infusion = 1 / 2, concentration_reached = 10, max_val = 20,
            min_infusions = 2\<rparr>
   \<and> (10::rat) < 12"
  by code_simp

subsection \<open>Rows without a concentration or a dilution\<close>

text \<open>Policy A keeps, for each molecule, exactly the rows whose concentration is
  neither missing nor blank.\<close>

lemma load_data_variants:
  assumes "load_data df molecule = Some vs"
  shows "vs = map variant_of
    (filter (\<lambda>r. Molecule r = molecule \<and> Concentration r \<noteq> NaN
                \<and> strip (py_str (Concentration r)) \<noteq> []) df)"
proof -
  have "has_concentration r \<longleftrightarrow>
      Concentration r \<noteq> NaN \<and> strip (py_str (Concentration r)) \<noteq> []" for r
    by (cases "Concentration r") (simp_all add: has_concentration_def)
  with assms show ?thesis
    by (auto simp: load_data_def conj_commute split: if_splits)
qed

text \<open>Policy B skips a row whose dilution is a blank text, and keeps a row whose
  dilution is missing: \<^verbatim>\<open>pd.isna\<close> sees the text \<^verbatim>\<open>nan\<close>, not the missing value.\<close>

lemma skipped_iff: "skipped r \<longleftrightarrow> strip (py_str (Dilution_pratique r)) = []"
  by (simp add: skipped_def)

lemma missing_dilution_not_skipped: "Dilution_pratique r = NaN \<Longrightarrow> \<not> skipped r"
proof -
  assume "Dilution_pratique r = NaN"
  moreover have "strip ''nan'' = ''nan''"
    by code_simp
  ultimately show ?thesis
    by (simp add: skipped_iff)
qed

text \<open>
  Claim C5. The claim: during load, a row whose concentration (Policy A) or dilution
  (Policy B) is empty or NaN is skipped, and rows with a value are kept. Policy A does
  so. Policy B keeps the row with a missing dilution: the store then holds an entry
  whose dilution is not a text, and a calculation for it ends in a \<^verbatim>\<open>TypeError\<close> that
  nothing handles. A blank text is skipped by both.
\<close>

theorem load_data_B_keeps_missing_dilution:
  "load_data_B
     [\<lparr>Molecule_B = ''Cefazoline'', Stabilite = Text ''8'', Dilution_pratique = NaN,
       Solute_de_dilution = Text ''G5%'', Duree_administration = Text ''30 min''\<rparr>]
     ''Cefazoline'' =
   Some \<lparr>stabilite = ''8h'', dilution_pratique = NaN, solute_de_dilution = Text ''G5%'',
         duree_administration = ''30 min''\<rparr>
   \<and> calculer
       (load_data_B
         [\<lparr>Molecule_B = ''Cefazoline'', Stabilite = Text ''8'', Dilution_pratique = NaN,
           Solute_de_dilution = Text ''G5%'', Duree_administration = Text ''30 min''\<rparr>])
       ''Cefazoline'' 1 = Inl (Unhandled TypeError)
   \<and> load_data_B
       [\<lparr>Molecule_B = ''Cefazoline'', Stabilite = Text ''8'', Dilution_pratique = Text ''  '',
         Solute_de_dilution = Text ''G5%'', Duree_administration = Text ''30 min''\<rparr>]
       ''Cefazoline'' = None
   \<and> load_data
       [\<lparr>Molecule = ''Cefazoline'', Solvent = Text ''NaCl 0.9%'', Concentration = NaN,
         Stability = Text ''8h'', Comment = NaN, Reference = NaN\<rparr>]
       ''Cefazoline'' = Some []"
  by code_simp

end
